theory Spec2Isabelle
  imports Main "HOL-Library.Sublist" "HOL-Library.Multiset"
begin

section \<open>The grocery shop backend: an Express application over one SQLite file\<close>

text \<open>
  The repository holds two files with the same Express application:
  \<^verbatim>\<open>src/server.js\<close> and an older copy, \<^verbatim>\<open>src/unnamed/part_000\<close>. Their handlers
  are the same text except for the two \<^verbatim>\<open>POST\<close> handlers with an upload (the older copy
  stores the image path without a base URL and leaves the image out of its answer) and
  the health check (only in \<^verbatim>\<open>server.js\<close>). Each handler runs one SQL statement on the
  connection \<^verbatim>\<open>db\<close> and answers from inside the statement's callback.

  The embedding has three layers, as the code has: the values a request carries and an
  answer holds; the SQL statements, each a function from the store to an error or a
  result and the new store; and the handlers, which pick the answer.
\<close>

subsection \<open>JSON values, the process and the moment of a request\<close>

text \<open>
  What \<^verbatim>\<open>express.json()\<close> puts into \<^verbatim>\<open>req.body\<close>. Numbers are the integers only.
  A field that the body does not have is \<^verbatim>\<open>undefined\<close>: \<open>None\<close> of a \<open>json option\<close>.
\<close>

datatype json =
    JNull
  | JBool bool
  | JNumber int
  | JString string
  | JArray "json list"
  | JObject "(string \<times> json) list"

text \<open>
  What the process is started with, and the library functions the handlers call whose
  code is not this repository's: \<^verbatim>\<open>path.extname\<close>, \<^verbatim>\<open>JSON.stringify\<close>, the text that the
  driver and a column of type \<^verbatim>\<open>TEXT\<close> make of a bound number, boolean, array or object
  (\<open>text_of\<close>), and the row id that SQLite reads out of a text parameter compared with an
  \<^verbatim>\<open>INTEGER PRIMARY KEY\<close> column (\<open>rowid_of\<close>; \<open>None\<close> when the text is no integer).
\<close>

record runtime =
  env_BACKEND_URL :: "string option"
  extname :: "string \<Rightarrow> string"
  JSON_stringify :: "json \<Rightarrow> string"
  text_of :: "json \<Rightarrow> string"
  rowid_of :: "string \<Rightarrow> nat option"

text \<open>
  What one request finds: \<^verbatim>\<open>Date.now()\<close> in milliseconds, SQLite's
  \<^verbatim>\<open>CURRENT_TIMESTAMP\<close> (a text \<^verbatim>\<open>YYYY-MM-DD HH:MM:SS\<close>, compared as text; modelled by
  the number of whole seconds it stands for, which orders the same way), and the failure,
  if any, that the engine reports for the request's statement for a reason other than a
  constraint (an I/O error, a locked or full database): the \<^verbatim>\<open>err\<close> of the callbacks.
\<close>

record world =
  Date_now :: nat
  CURRENT_TIMESTAMP :: nat
  store_error :: "string option"

text \<open>\<^verbatim>\<open>const BACKEND_URL = process.env.BACKEND_URL || 'https://...onrender.com'\<close>:
  an empty variable is falsy.\<close>

definition BACKEND_URL :: "runtime \<Rightarrow> string" where
  "BACKEND_URL rt =
     (case env_BACKEND_URL rt of
        None \<Rightarrow> ''https://velan-grocery-shop-backend.onrender.com''
      | Some u \<Rightarrow> if u = [] then ''https://velan-grocery-shop-backend.onrender.com'' else u)"

text \<open>A number concatenated with a string: its decimal digits (\<open>digit\<close> is only ever
  asked for a number below ten).\<close>

definition digit :: "nat \<Rightarrow> char" where
  "digit d = ''0123456789'' ! d"

fun decimal :: "nat \<Rightarrow> string" where
  "decimal n = (if n < 10 then [digit n] else decimal (n div 10) @ [digit (n mod 10)])"

declare decimal.simps [simp del]

subsection \<open>Multer\<close>

text \<open>
  \<^verbatim>\<open>upload.single('image')\<close> runs before the handler. For a file part under the field
  \<^verbatim>\<open>image\<close> it stores the file under the name
  \<^verbatim>\<open>Date.now() + path.extname(file.originalname)\<close> and sets \<^verbatim>\<open>req.file\<close>; without such
  a part \<^verbatim>\<open>req.file\<close> stays undefined. A request that multer itself refuses (a file
  under another field, a failed write) never reaches the handler and is not a request of
  this model.
\<close>

record upload =
  originalname :: string

record req_file =
  filename :: string

definition storage_filename :: "runtime \<Rightarrow> world \<Rightarrow> upload \<Rightarrow> string" where
  "storage_filename rt w file = decimal (Date_now w) @ extname rt (originalname file)"

definition upload_single :: "runtime \<Rightarrow> world \<Rightarrow> upload option \<Rightarrow> req_file option" where
  "upload_single rt w part =
     (case part of None \<Rightarrow> None | Some file \<Rightarrow> Some \<lparr>filename = storage_filename rt w file\<rparr>)"

subsection \<open>The tables\<close>

text \<open>
  The four tables of \<^verbatim>\<open>db.serialize\<close>. A \<^verbatim>\<open>TEXT\<close> column holds a text or \<^verbatim>\<open>NULL\<close>
  (\<open>None\<close>). A table is the list of its rows in the order a scan visits them, which is the
  order of their row ids; an \<^verbatim>\<open>AUTOINCREMENT\<close> table also has its counter in
  \<^verbatim>\<open>sqlite_sequence\<close>. The price is kept as the form field that was bound: no statement
  of the program compares or computes with it.
\<close>

record category =
  cat_id :: nat
  cat_name :: "string option"
  cat_image :: "string option"

record product =
  prod_id :: nat
  prod_name :: "string option"
  prod_description :: "string option"
  prod_price :: "string option"
  prod_image :: "string option"
  prod_category :: "string option"

record order_row =
  ord_id :: nat
  ord_items :: "string option"
  ord_details :: "string option"
  ord_created_at :: nat

record status_row =
  st_key :: string
  st_text :: "string option"

record db =
  categories :: "category list"
  categories_seq :: nat
  products :: "product list"
  products_seq :: nat
  orders :: "order_row list"
  orders_seq :: nat
  status_rows :: "status_row list"

definition new_db :: db where
  "new_db = \<lparr>categories = [], categories_seq = 0, products = [], products_seq = 0,
             orders = [], orders_seq = 0, status_rows = []\<rparr>"

datatype db_error = SQLITE_CONSTRAINT string | SQLITE_OTHER string

fun message :: "db_error \<Rightarrow> string" where
  "message (SQLITE_CONSTRAINT m) = ''SQLITE_CONSTRAINT: '' @ m"
| "message (SQLITE_OTHER m) = m"

text \<open>\<^verbatim>\<open>AUTOINCREMENT\<close>: one more than the largest row id the table has ever had.\<close>

definition next_rowid :: "nat \<Rightarrow> nat list \<Rightarrow> nat" where
  "next_rowid seq ids = Suc (fold max ids seq)"

subsection \<open>The statements\<close>

text \<open>\<^verbatim>\<open>SELECT * FROM categories\<close>\<close>

definition select_categories :: "string option \<Rightarrow> db \<Rightarrow> db_error + category list" where
  "select_categories fault s =
     (case fault of Some m \<Rightarrow> Inl (SQLITE_OTHER m) | None \<Rightarrow> Inr (categories s))"

text \<open>
  \<^verbatim>\<open>INSERT INTO categories (name, image) VALUES (?, ?)\<close>, with \<^verbatim>\<open>name TEXT UNIQUE\<close>:
  a name that a row already has is refused, and \<^verbatim>\<open>NULL\<close> is never a duplicate. The
  result is \<^verbatim>\<open>this.lastID\<close>.
\<close>

definition insert_category ::
  "string option \<Rightarrow> string option \<Rightarrow> string option \<Rightarrow> db \<Rightarrow> db_error + nat \<times> db" where
  "insert_category fault name img s =
     (case fault of
        Some m \<Rightarrow> Inl (SQLITE_OTHER m)
      | None \<Rightarrow>
          if name \<noteq> None \<and> name \<in> set (map cat_name (categories s))
          then Inl (SQLITE_CONSTRAINT ''UNIQUE constraint failed: categories.name'')
          else
            let i = next_rowid (categories_seq s) (map cat_id (categories s)) in
            Inr (i, s\<lparr>categories :=
                        categories s @ [\<lparr>cat_id = i, cat_name = name, cat_image = img\<rparr>],
                      categories_seq := i\<rparr>))"

text \<open>\<^verbatim>\<open>DELETE FROM categories WHERE id=?\<close> and \<^verbatim>\<open>... WHERE name=?\<close>, the parameter a
  text of the URL.\<close>

definition delete_category_id :: "runtime \<Rightarrow> string option \<Rightarrow> string \<Rightarrow> db \<Rightarrow> db_error + db" where
  "delete_category_id rt fault p s =
     (case fault of
        Some m \<Rightarrow> Inl (SQLITE_OTHER m)
      | None \<Rightarrow>
          Inr (s\<lparr>categories := filter (\<lambda>r. rowid_of rt p \<noteq> Some (cat_id r)) (categories s)\<rparr>))"

definition delete_category_name :: "string option \<Rightarrow> string \<Rightarrow> db \<Rightarrow> db_error + db" where
  "delete_category_name fault p s =
     (case fault of
        Some m \<Rightarrow> Inl (SQLITE_OTHER m)
      | None \<Rightarrow> Inr (s\<lparr>categories := filter (\<lambda>r. cat_name r \<noteq> Some p) (categories s)\<rparr>))"

text \<open>
  \<^verbatim>\<open>SELECT * FROM products\<close>, with \<^verbatim>\<open>WHERE category = ?\<close> appended when the handler
  pushed a parameter: \<open>params\<close> is the handler's array, empty or of one text.
\<close>

fun select_products :: "string option \<Rightarrow> string list \<Rightarrow> db \<Rightarrow> db_error + product list" where
  "select_products (Some m) params s = Inl (SQLITE_OTHER m)"
| "select_products None [] s = Inr (products s)"
| "select_products None (c # rest) s =
     Inr (filter (\<lambda>r. prod_category r = Some c) (products s))"

text \<open>\<^verbatim>\<open>INSERT INTO products (name, description, price, image, category) VALUES (?, ?, ?, ?, ?)\<close>\<close>

record product_form =
  form_name :: "string option"
  form_description :: "string option"
  form_price :: "string option"
  form_category :: "string option"

definition insert_product ::
  "string option \<Rightarrow> product_form \<Rightarrow> string option \<Rightarrow> db \<Rightarrow> db_error + nat \<times> db" where
  "insert_product fault form img s =
     (case fault of
        Some m \<Rightarrow> Inl (SQLITE_OTHER m)
      | None \<Rightarrow>
          let i = next_rowid (products_seq s) (map prod_id (products s)) in
          Inr (i, s\<lparr>products :=
                      products s @
                        [\<lparr>prod_id = i, prod_name = form_name form,
                          prod_description = form_description form,
                          prod_price = form_price form, prod_image = img,
                          prod_category = form_category form\<rparr>],
                    products_seq := i\<rparr>))"

definition delete_product_id :: "runtime \<Rightarrow> string option \<Rightarrow> string \<Rightarrow> db \<Rightarrow> db_error + db" where
  "delete_product_id rt fault p s =
     (case fault of
        Some m \<Rightarrow> Inl (SQLITE_OTHER m)
      | None \<Rightarrow>
          Inr (s\<lparr>products := filter (\<lambda>r. rowid_of rt p \<noteq> Some (prod_id r)) (products s)\<rparr>))"

definition delete_product_name :: "string option \<Rightarrow> string \<Rightarrow> db \<Rightarrow> db_error + db" where
  "delete_product_name fault p s =
     (case fault of
        Some m \<Rightarrow> Inl (SQLITE_OTHER m)
      | None \<Rightarrow> Inr (s\<lparr>products := filter (\<lambda>r. prod_name r \<noteq> Some p) (products s)\<rparr>))"

text \<open>
  \<^verbatim>\<open>SELECT * FROM orders ORDER BY created_at ASC\<close>. SQLite scans the table in row id
  order and sorts the rows by the one key; its sorter keeps rows of equal key in the
  order of the scan, as the insertion sort \<open>sort_key\<close> does.
\<close>

definition select_orders :: "string option \<Rightarrow> db \<Rightarrow> db_error + order_row list" where
  "select_orders fault s =
     (case fault of
        Some m \<Rightarrow> Inl (SQLITE_OTHER m)
      | None \<Rightarrow> Inr (sort_key ord_created_at (orders s)))"

text \<open>\<^verbatim>\<open>INSERT INTO orders (items, details) VALUES (?, ?)\<close>; \<^verbatim>\<open>created_at\<close> takes its
  default, \<^verbatim>\<open>CURRENT_TIMESTAMP\<close> (\<open>now\<close>).\<close>

definition insert_order ::
  "string option \<Rightarrow> nat \<Rightarrow> string option \<Rightarrow> string option \<Rightarrow> db \<Rightarrow> db_error + nat \<times> db" where
  "insert_order fault now items details s =
     (case fault of
        Some m \<Rightarrow> Inl (SQLITE_OTHER m)
      | None \<Rightarrow>
          let i = next_rowid (orders_seq s) (map ord_id (orders s)) in
          Inr (i, s\<lparr>orders :=
                      orders s @
                        [\<lparr>ord_id = i, ord_items = items, ord_details = details,
                          ord_created_at = now\<rparr>],
                    orders_seq := i\<rparr>))"

text \<open>\<^verbatim>\<open>SELECT value FROM status WHERE key=?\<close> through \<^verbatim>\<open>db.get\<close>: the first row, or
  undefined.\<close>

definition select_status :: "string option \<Rightarrow> string \<Rightarrow> db \<Rightarrow> db_error + status_row option" where
  "select_status fault k s =
     (case fault of
        Some m \<Rightarrow> Inl (SQLITE_OTHER m)
      | None \<Rightarrow> Inr (find (\<lambda>r. st_key r = k) (status_rows s)))"

text \<open>
  \<^verbatim>\<open>INSERT INTO status (key, value) VALUES ('leave', ?) ON CONFLICT(key) DO UPDATE SET value=?\<close>:
  the row with the key takes the second parameter; without such a row, a new row takes
  the first.
\<close>

fun upsert :: "string \<Rightarrow> string option \<Rightarrow> string option \<Rightarrow> status_row list \<Rightarrow> status_row list" where
  "upsert k v1 v2 [] = [\<lparr>st_key = k, st_text = v1\<rparr>]"
| "upsert k v1 v2 (r # rs) =
     (if st_key r = k then r\<lparr>st_text := v2\<rparr> # rs else r # upsert k v1 v2 rs)"

definition upsert_status ::
  "string option \<Rightarrow> string option \<Rightarrow> string option \<Rightarrow> db \<Rightarrow> db_error + db" where
  "upsert_status fault v1 v2 s =
     (case fault of
        Some m \<Rightarrow> Inl (SQLITE_OTHER m)
      | None \<Rightarrow> Inr (s\<lparr>status_rows := upsert ''leave'' v1 v2 (status_rows s)\<rparr>))"

text \<open>
  How a value of a JSON body is bound to a parameter that a \<^verbatim>\<open>TEXT\<close> column takes:
  \<^verbatim>\<open>undefined\<close> and \<^verbatim>\<open>null\<close> are \<^verbatim>\<open>NULL\<close>, a string is its text, and everything
  else is stored as a text too (the column's affinity), never as the number or boolean
  it was.
\<close>

fun bind_text :: "runtime \<Rightarrow> json option \<Rightarrow> string option" where
  "bind_text rt None = None"
| "bind_text rt (Some JNull) = None"
| "bind_text rt (Some (JString t)) = Some t"
| "bind_text rt (Some v) = Some (text_of rt v)"

subsection \<open>Answers\<close>

text \<open>
  The objects the handlers pass to \<^verbatim>\<open>res.json\<close>, one constructor for each shape:
  the rows of a table, \<^verbatim>\<open>{error}\<close>, \<^verbatim>\<open>{success: false, error}\<close>,
  \<^verbatim>\<open>{success: true, id, image}\<close> and \<^verbatim>\<open>{success: true, productId, image}\<close>, the older
  copy's \<^verbatim>\<open>{success: true, id}\<close> and \<^verbatim>\<open>{success: true, productId}\<close>,
  \<^verbatim>\<open>{success: true}\<close>, \<^verbatim>\<open>{success: true, orderId}\<close>, \<^verbatim>\<open>{status}\<close> and the health check's
  \<^verbatim>\<open>{ok: true, msg, time}\<close>.
\<close>

datatype body =
    CategoryRows "category list"
  | ProductRows "product list"
  | OrderRows "order_row list"
  | ErrorOnly string
  | SuccessFalse string
  | CategoryCreated nat "string option"
  | ProductCreated nat "string option"
  | CategoryCreatedId nat
  | ProductCreatedId nat
  | SuccessTrue
  | OrderCreated nat
  | StatusIs json
  | Health string nat

record response =
  status_code :: nat
  json_body :: body

definition res_json :: "body \<Rightarrow> response" where
  "res_json b = \<lparr>status_code = 200, json_body = b\<rparr>"

definition res_status_json :: "nat \<Rightarrow> body \<Rightarrow> response" where
  "res_status_json c b = \<lparr>status_code = c, json_body = b\<rparr>"

subsection \<open>The handlers of \<^verbatim>\<open>server.js\<close>\<close>

text \<open>
  A handler takes what the request carries and the store, and gives the answer and the
  store after its statement. The statement's callback is the \<open>case\<close>: \<open>Inl\<close> is
  \<^verbatim>\<open>if (err) return ...\<close>.
\<close>

definition get_categories :: "world \<Rightarrow> db \<Rightarrow> response \<times> db" where
  "get_categories w s =
     (case select_categories (store_error w) s of
        Inl err \<Rightarrow> (res_status_json 500 (ErrorOnly (message err)), s)
      | Inr rows \<Rightarrow> (res_json (CategoryRows rows), s))"

text \<open>
  \<^verbatim>\<open>const image = req.file ? `${BACKEND_URL}/uploads/${req.file.filename}` : null\<close>
\<close>

definition image_url :: "runtime \<Rightarrow> req_file option \<Rightarrow> string option" where
  "image_url rt file =
     (case file of
        Some f \<Rightarrow> Some (BACKEND_URL rt @ ''/uploads/'' @ filename f)
      | None \<Rightarrow> None)"

definition post_categories ::
  "runtime \<Rightarrow> world \<Rightarrow> string option \<Rightarrow> upload option \<Rightarrow> db \<Rightarrow> response \<times> db" where
  "post_categories rt w name part s =
     (let img = image_url rt (upload_single rt w part) in
      case insert_category (store_error w) name img s of
        Inl err \<Rightarrow> (res_json (SuccessFalse (message err)), s)
      | Inr (lastID, s') \<Rightarrow> (res_json (CategoryCreated lastID img), s'))"

definition delete_categories_id :: "runtime \<Rightarrow> world \<Rightarrow> string \<Rightarrow> db \<Rightarrow> response \<times> db" where
  "delete_categories_id rt w p s =
     (case delete_category_id rt (store_error w) p s of
        Inl err \<Rightarrow> (res_status_json 500 (ErrorOnly (message err)), s)
      | Inr s' \<Rightarrow> (res_json SuccessTrue, s'))"

definition delete_categories_by_name :: "world \<Rightarrow> string \<Rightarrow> db \<Rightarrow> response \<times> db" where
  "delete_categories_by_name w p s =
     (case delete_category_name (store_error w) p s of
        Inl err \<Rightarrow> (res_status_json 500 (ErrorOnly (message err)), s)
      | Inr s' \<Rightarrow> (res_json SuccessTrue, s'))"

text \<open>
  \<^verbatim>\<open>if (category)\<close>: the query parameter is undefined when the URL has none, and a
  string otherwise; undefined and the empty string are falsy. (A parameter given twice,
  which the query parser turns into an array, is not a request of this model.)
\<close>

fun truthy :: "string option \<Rightarrow> bool" where
  "truthy None = False"
| "truthy (Some c) = (c \<noteq> [])"

definition get_products :: "world \<Rightarrow> string option \<Rightarrow> db \<Rightarrow> response \<times> db" where
  "get_products w category s =
     (let params = (if truthy category
                    then (case category of Some c \<Rightarrow> [c] | None \<Rightarrow> [])
                    else []) in
      case select_products (store_error w) params s of
        Inl err \<Rightarrow> (res_status_json 500 (ErrorOnly (message err)), s)
      | Inr rows \<Rightarrow> (res_json (ProductRows rows), s))"

definition post_products ::
  "runtime \<Rightarrow> world \<Rightarrow> product_form \<Rightarrow> upload option \<Rightarrow> db \<Rightarrow> response \<times> db" where
  "post_products rt w form part s =
     (let img = image_url rt (upload_single rt w part) in
      case insert_product (store_error w) form img s of
        Inl err \<Rightarrow> (res_json (SuccessFalse (message err)), s)
      | Inr (lastID, s') \<Rightarrow> (res_json (ProductCreated lastID img), s'))"

definition delete_products_id :: "runtime \<Rightarrow> world \<Rightarrow> string \<Rightarrow> db \<Rightarrow> response \<times> db" where
  "delete_products_id rt w p s =
     (case delete_product_id rt (store_error w) p s of
        Inl err \<Rightarrow> (res_status_json 500 (ErrorOnly (message err)), s)
      | Inr s' \<Rightarrow> (res_json SuccessTrue, s'))"

definition delete_products_by_name :: "world \<Rightarrow> string \<Rightarrow> db \<Rightarrow> response \<times> db" where
  "delete_products_by_name w p s =
     (case delete_product_name (store_error w) p s of
        Inl err \<Rightarrow> (res_status_json 500 (ErrorOnly (message err)), s)
      | Inr s' \<Rightarrow> (res_json SuccessTrue, s'))"

definition get_orders :: "world \<Rightarrow> db \<Rightarrow> response \<times> db" where
  "get_orders w s =
     (case select_orders (store_error w) s of
        Inl err \<Rightarrow> (res_status_json 500 (ErrorOnly (message err)), s)
      | Inr rows \<Rightarrow> (res_json (OrderRows rows), s))"

text \<open>\<^verbatim>\<open>JSON.stringify(undefined)\<close> is undefined, which is bound as \<^verbatim>\<open>NULL\<close>.\<close>

definition stringify :: "runtime \<Rightarrow> json option \<Rightarrow> string option" where
  "stringify rt v = (case v of None \<Rightarrow> None | Some j \<Rightarrow> Some (JSON_stringify rt j))"

definition post_orders ::
  "runtime \<Rightarrow> world \<Rightarrow> json option \<Rightarrow> json option \<Rightarrow> db \<Rightarrow> response \<times> db" where
  "post_orders rt w items details s =
     (case insert_order (store_error w) (CURRENT_TIMESTAMP w)
             (stringify rt items) (stringify rt details) s of
        Inl err \<Rightarrow> (res_status_json 500 (ErrorOnly (message err)), s)
      | Inr (lastID, s') \<Rightarrow> (res_json (OrderCreated lastID), s'))"

text \<open>\<^verbatim>\<open>res.json({ status: row ? row.value : 'none' })\<close>: a row is truthy whatever it
  holds, and a \<^verbatim>\<open>NULL\<close> comes back as \<^verbatim>\<open>null\<close>.\<close>

definition row_text :: "status_row \<Rightarrow> json" where
  "row_text row = (case st_text row of None \<Rightarrow> JNull | Some t \<Rightarrow> JString t)"

definition get_status_leave :: "world \<Rightarrow> db \<Rightarrow> response \<times> db" where
  "get_status_leave w s =
     (case select_status (store_error w) ''leave'' s of
        Inl err \<Rightarrow> (res_status_json 500 (ErrorOnly (message err)), s)
      | Inr row \<Rightarrow>
          (res_json (StatusIs (case row of Some r \<Rightarrow> row_text r | None \<Rightarrow> JString ''none'')), s))"

definition post_status_leave :: "runtime \<Rightarrow> world \<Rightarrow> json option \<Rightarrow> db \<Rightarrow> response \<times> db" where
  "post_status_leave rt w status s =
     (case upsert_status (store_error w) (bind_text rt status) (bind_text rt status) s of
        Inl err \<Rightarrow> (res_status_json 500 (ErrorOnly (message err)), s)
      | Inr s' \<Rightarrow> (res_json SuccessTrue, s'))"

text \<open>The health check; the time is left as the instant, not its ISO text.\<close>

definition get_root :: "world \<Rightarrow> db \<Rightarrow> response \<times> db" where
  "get_root w s = (res_json (Health ''Backend running!'' (Date_now w)), s)"

subsection \<open>The two handlers that differ in \<^verbatim>\<open>src/unnamed/part_000\<close>\<close>

text \<open>
  \<^verbatim>\<open>const image = req.file ? `/uploads/${req.file.filename}` : null\<close>, and the answers
  \<^verbatim>\<open>{ success: true, id: this.lastID }\<close> and \<^verbatim>\<open>{ success: true, productId: this.lastID }\<close>.
\<close>

definition image_path_part_000 :: "req_file option \<Rightarrow> string option" where
  "image_path_part_000 file =
     (case file of Some f \<Rightarrow> Some (''/uploads/'' @ filename f) | None \<Rightarrow> None)"

definition post_categories_part_000 ::
  "runtime \<Rightarrow> world \<Rightarrow> string option \<Rightarrow> upload option \<Rightarrow> db \<Rightarrow> response \<times> db" where
  "post_categories_part_000 rt w name part s =
     (let img = image_path_part_000 (upload_single rt w part) in
      case insert_category (store_error w) name img s of
        Inl err \<Rightarrow> (res_json (SuccessFalse (message err)), s)
      | Inr (lastID, s') \<Rightarrow> (res_json (CategoryCreatedId lastID), s'))"

definition post_products_part_000 ::
  "runtime \<Rightarrow> world \<Rightarrow> product_form \<Rightarrow> upload option \<Rightarrow> db \<Rightarrow> response \<times> db" where
  "post_products_part_000 rt w form part s =
     (let img = image_path_part_000 (upload_single rt w part) in
      case insert_product (store_error w) form img s of
        Inl err \<Rightarrow> (res_json (SuccessFalse (message err)), s)
      | Inr (lastID, s') \<Rightarrow> (res_json (ProductCreatedId lastID), s'))"

subsection \<open>The routes\<close>

datatype request =
    GET_categories
  | POST_categories "string option" "upload option"
  | DELETE_categories_id string
  | DELETE_categories_by_name string
  | GET_products "string option"
  | POST_products product_form "upload option"
  | DELETE_products_id string
  | DELETE_products_by_name string
  | GET_orders
  | POST_orders "json option" "json option"
  | GET_status_leave
  | POST_status_leave "json option"
  | GET_root

fun app :: "runtime \<Rightarrow> world \<Rightarrow> request \<Rightarrow> db \<Rightarrow> response \<times> db" where
  "app rt w GET_categories s = get_categories w s"
| "app rt w (POST_categories name part) s = post_categories rt w name part s"
| "app rt w (DELETE_categories_id p) s = delete_categories_id rt w p s"
| "app rt w (DELETE_categories_by_name p) s = delete_categories_by_name w p s"
| "app rt w (GET_products category) s = get_products w category s"
| "app rt w (POST_products form part) s = post_products rt w form part s"
| "app rt w (DELETE_products_id p) s = delete_products_id rt w p s"
| "app rt w (DELETE_products_by_name p) s = delete_products_by_name w p s"
| "app rt w GET_orders s = get_orders w s"
| "app rt w (POST_orders items details) s = post_orders rt w items details s"
| "app rt w GET_status_leave s = get_status_leave w s"
| "app rt w (POST_status_leave status) s = post_status_leave rt w status s"
| "app rt w GET_root s = get_root w s"

text \<open>The older copy has no route \<^verbatim>\<open>/\<close>: Express answers 404 and no handler runs.\<close>

datatype outcome = Answered response | NotFound

fun app_part_000 :: "runtime \<Rightarrow> world \<Rightarrow> request \<Rightarrow> db \<Rightarrow> outcome \<times> db" where
  "app_part_000 rt w (POST_categories name part) s =
     (let (r, s') = post_categories_part_000 rt w name part s in (Answered r, s'))"
| "app_part_000 rt w (POST_products form part) s =
     (let (r, s') = post_products_part_000 rt w form part s in (Answered r, s'))"
| "app_part_000 rt w GET_root s = (NotFound, s)"
| "app_part_000 rt w req s = (let (r, s') = app rt w req s in (Answered r, s'))"

text \<open>Requests served one after the other, each at its own moment.\<close>

fun serve :: "runtime \<Rightarrow> (world \<times> request) list \<Rightarrow> db \<Rightarrow> db" where
  "serve rt [] s = s"
| "serve rt ((w, req) # rest) s = serve rt rest (snd (app rt w req s))"

fun serve_part_000 :: "runtime \<Rightarrow> (world \<times> request) list \<Rightarrow> db \<Rightarrow> db" where
  "serve_part_000 rt [] s = s"
| "serve_part_000 rt ((w, req) # rest) s = serve_part_000 rt rest (snd (app_part_000 rt w req s))"

subsection \<open>A shop to run the handlers on\<close>

text \<open>
  A process with no \<^verbatim>\<open>BACKEND_URL\<close> set and stand-ins for the library functions
  (right on the few values the examples pass them), a moment \<open>at t\<close> seconds at which
  the engine reports no failure, a store with one category, two products and one order,
  a store whose shop is on leave, an upload, a product form, three orders placed one
  after the other, two of them within one second, and three orders placed while the
  clock is set back, at the seconds 12, 10 and 11.
\<close>

fun example_stringify :: "json \<Rightarrow> string" where
  "example_stringify JNull = ''null''"
| "example_stringify (JBool b) = (if b then ''true'' else ''false'')"
| "example_stringify (JNumber n) = (if n < 0 then ''-'' @ decimal (nat (- n)) else decimal (nat n))"
| "example_stringify (JArray []) = ''[]''"
| "example_stringify (JObject []) = ''{}''"
| "example_stringify j = ''...''"

fun example_text_of :: "json \<Rightarrow> string" where
  "example_text_of (JNumber n) = (if n < 0 then ''-'' @ decimal (nat (- n)) else decimal (nat n))"
| "example_text_of (JBool b) = (if b then ''1'' else ''0'')"
| "example_text_of j = ''[object Object]''"

definition example_runtime :: runtime where
  "example_runtime =
     \<lparr>env_BACKEND_URL = None,
      extname = (\<lambda>n. ''.png''),
      JSON_stringify = example_stringify,
      text_of = example_text_of,
      rowid_of = (\<lambda>p. if p = ''1'' then Some 1 else if p = ''2'' then Some 2 else None)\<rparr>"

definition at :: "nat \<Rightarrow> world" where
  "at t = \<lparr>Date_now = 1000 * t, CURRENT_TIMESTAMP = t, store_error = None\<rparr>"

definition example_shop :: db where
  "example_shop =
     \<lparr>categories = [\<lparr>cat_id = 1, cat_name = Some ''Dairy'', cat_image = None\<rparr>],
      categories_seq = 1,
      products =
        [\<lparr>prod_id = 1, prod_name = Some ''Milk'', prod_description = None,
          prod_price = Some ''30'', prod_image = None, prod_category = Some ''Dairy''\<rparr>,
         \<lparr>prod_id = 2, prod_name = Some ''Soap'', prod_description = None,
          prod_price = Some ''25'', prod_image = None, prod_category = Some ''dairy''\<rparr>],
      products_seq = 2,
      orders = [\<lparr>ord_id = 4, ord_items = Some ''[]'', ord_details = Some ''{}'',
                ord_created_at = 7\<rparr>],
      orders_seq = 6,
      status_rows = []\<rparr>"

definition example_leave :: db where
  "example_leave = new_db\<lparr>status_rows := [\<lparr>st_key = ''leave'', st_text = Some ''on leave''\<rparr>]\<rparr>"

definition example_file :: upload where
  "example_file = \<lparr>originalname = ''milk.png''\<rparr>"

definition example_form :: product_form where
  "example_form = \<lparr>form_name = Some ''Curd'', form_description = Some ''Fresh curd'',
                    form_price = Some ''40'', form_category = Some ''Dairy''\<rparr>"

definition example_orders :: "(world \<times> request) list" where
  "example_orders =
     [(at 10, POST_orders (Some (JArray [])) (Some (JObject []))),
      (at 10, POST_orders (Some (JArray [])) (Some JNull)),
      (at 12, POST_orders (Some (JObject [])) None)]"


subsection \<open>The primary key of the status table\<close>

text \<open>\<^verbatim>\<open>key TEXT PRIMARY KEY\<close>: no two rows of the table have the same key.\<close>

definition primary_key_ok :: "db \<Rightarrow> bool" where
  "primary_key_ok s = distinct (map st_key (status_rows s))"

section \<open>Properties\<close>

subsection \<open>Row ids and the upsert\<close>

lemma fold_max_ge: "seq \<le> fold max ids (seq::nat)"
  by (induction ids arbitrary: seq) (auto intro: order_trans [OF max.cobounded2])

lemma fold_max_mem: "x \<in> set ids \<Longrightarrow> x \<le> fold max ids (seq::nat)"
proof (induction ids arbitrary: seq)
  case Nil
  then show ?case by simp
next
  case (Cons y ys)
  show ?case
  proof (cases "x = y")
    case True
    have "y \<le> max y seq" by simp
    also have "\<dots> \<le> fold max ys (max y seq)" by (rule fold_max_ge)
    finally show ?thesis using True by simp
  next
    case False
    with Cons show ?thesis by simp
  qed
qed

lemma next_rowid_fresh: "x \<in> set ids \<Longrightarrow> x < next_rowid seq ids"
  by (simp add: next_rowid_def fold_max_mem less_Suc_eq_le)


lemma upsert_keys:
  "map st_key (upsert k v1 v2 rs) =
     (if k \<in> set (map st_key rs) then map st_key rs else map st_key rs @ [k])"
  by (induction rs) auto

lemma upsert_distinct:
  "distinct (map st_key rs) \<Longrightarrow> distinct (map st_key (upsert k v1 v2 rs))"
  by (simp add: upsert_keys)

lemma upsert_absent:
  "k \<notin> set (map st_key rs) \<Longrightarrow> upsert k v1 v2 rs = rs @ [\<lparr>st_key = k, st_text = v1\<rparr>]"
  by (induction rs) auto

lemma upsert_present:
  "k \<in> set (map st_key rs) \<Longrightarrow> distinct (map st_key rs) \<Longrightarrow>
   upsert k v1 v2 rs = map (\<lambda>r. if st_key r = k then r\<lparr>st_text := v2\<rparr> else r) rs"
proof (induction rs)
  case Nil
  then show ?case by simp
next
  case (Cons r rs)
  show ?case
  proof (cases "st_key r = k")
    case True
    with Cons.prems have "k \<notin> set (map st_key rs)" by auto
    then have "map (\<lambda>r. if st_key r = k then r\<lparr>st_text := v2\<rparr> else r) rs = rs"
      by (induction rs) auto
    with True show ?thesis by simp
  next
    case False
    with Cons show ?thesis by auto
  qed
qed

lemma upsert_find:
  "\<exists>r. find (\<lambda>r. st_key r = k) (upsert k v v rs) = Some r \<and> st_text r = v"
  by (induction rs) auto


text \<open>
  Only \<^verbatim>\<open>POST /status/leave\<close> writes the status table, and every request keeps its
  primary key.
\<close>

lemmas statement_defs =
  select_categories_def insert_category_def delete_category_id_def delete_category_name_def
  insert_product_def delete_product_id_def delete_product_name_def
  select_orders_def insert_order_def select_status_def upsert_status_def

lemmas handler_defs =
  get_categories_def post_categories_def delete_categories_id_def
  delete_categories_by_name_def get_products_def post_products_def delete_products_id_def
  delete_products_by_name_def get_orders_def post_orders_def get_status_leave_def
  post_status_leave_def get_root_def post_categories_part_000_def post_products_part_000_def

lemma app_status_rows:
  "status_rows (snd (app rt w req s)) =
     (case req of
        POST_status_leave v \<Rightarrow>
          (case store_error w of
             None \<Rightarrow> upsert ''leave'' (bind_text rt v) (bind_text rt v) (status_rows s)
           | Some m \<Rightarrow> status_rows s)
      | _ \<Rightarrow> status_rows s)"
  by (cases req)
     (auto simp: handler_defs statement_defs Let_def split: option.splits sum.splits list.splits)

lemma primary_key_new_db: "primary_key_ok new_db"
  by (simp add: primary_key_ok_def new_db_def)

lemma primary_key_app: "primary_key_ok s \<Longrightarrow> primary_key_ok (snd (app rt w req s))"
  by (cases req)
     (simp_all add: primary_key_ok_def app_status_rows upsert_distinct split: option.splits
        del: app.simps)

lemma primary_key_serve: "primary_key_ok s \<Longrightarrow> primary_key_ok (serve rt reqs s)"
  by (induction reqs arbitrary: s) (auto simp: primary_key_app simp del: app.simps)

lemma serve_snoc: "serve rt (reqs @ [(w, req)]) s = snd (app rt w req (serve rt reqs s))"
  by (induction reqs arbitrary: s) auto

lemma distinct_count_le_1:
  "distinct (map f xs) \<Longrightarrow> length (filter (\<lambda>x. f x = k) xs) \<le> 1"
  by (induction xs) (auto simp: filter_empty_conv intro: rev_image_eqI)

lemma find_key_absent:
  "k \<notin> set (map st_key rs) \<Longrightarrow> find (\<lambda>r. st_key r = k) rs = None"
  by (induction rs) auto

lemma find_key_present:
  "distinct (map st_key rs) \<Longrightarrow> r \<in> set rs \<Longrightarrow> find (\<lambda>x. st_key x = st_key r) rs = Some r"
  by (induction rs) (auto intro: rev_image_eqI)

lemma get_after_post:
  assumes "store_error w = None" and "store_error w' = None"
  shows "fst (get_status_leave w' (snd (post_status_leave rt w v s))) =
           res_json (StatusIs (case bind_text rt v of None \<Rightarrow> JNull | Some t \<Rightarrow> JString t))"
proof -
  obtain r where "find (\<lambda>r. st_key r = ''leave'')
      (upsert ''leave'' (bind_text rt v) (bind_text rt v) (status_rows s)) = Some r"
    and "st_text r = bind_text rt v"
    using upsert_find by blast
  with assms show ?thesis
    by (simp add: get_status_leave_def post_status_leave_def upsert_status_def
        select_status_def row_text_def)
qed

subsection \<open>Categories\<close>

text \<open>
  C1. When a category row has the name \<open>n\<close>, \<^verbatim>\<open>POST /categories\<close> with the name \<open>n\<close>
  answers with status 200 and \<^verbatim>\<open>{success: false, error}\<close>, whether or not a file came
  with it and whatever the engine reports, and the store after the request is the store
  before it: the row, with its id, name and image, is as it was. Both copies of the
  handler do so.
\<close>

theorem post_categories_duplicate_name:
  assumes "r \<in> set (categories s)" and "cat_name r = Some n"
  shows "\<exists>e. post_categories rt w (Some n) part s =
               (\<lparr>status_code = 200, json_body = SuccessFalse e\<rparr>, s) \<and>
             post_categories_part_000 rt w (Some n) part s =
               (\<lparr>status_code = 200, json_body = SuccessFalse e\<rparr>, s)"
proof -
  from assms have dup: "Some n \<in> set (map cat_name (categories s))"
    by force
  show ?thesis
  proof (cases "store_error w")
    case None
    with dup show ?thesis
      by (simp add: post_categories_def post_categories_part_000_def insert_category_def
          res_json_def Let_def)
  next
    case (Some m)
    then show ?thesis
      by (simp add: post_categories_def post_categories_part_000_def insert_category_def
          res_json_def Let_def)
  qed
qed

theorem post_categories_duplicate_name_witness:
  "\<exists>e. post_categories example_runtime (at 9) (Some ''Dairy'') None example_shop =
         (\<lparr>status_code = 200, json_body = SuccessFalse e\<rparr>, example_shop) \<and>
       post_categories_part_000 example_runtime (at 9) (Some ''Dairy'') None example_shop =
         (\<lparr>status_code = 200, json_body = SuccessFalse e\<rparr>, example_shop)"
  using post_categories_duplicate_name
    [of "\<lparr>cat_id = 1, cat_name = Some ''Dairy'', cat_image = None\<rparr>" example_shop "''Dairy''"
        example_runtime "at 9" None]
  by (simp add: example_shop_def)

subsection \<open>Orders\<close>





text \<open>
  C7. When the engine does not fail, \<^verbatim>\<open>POST /orders\<close> with a body that has
  \<^verbatim>\<open>items\<close> and \<^verbatim>\<open>details\<close> appends one row to the orders table, which holds the
  two \<^verbatim>\<open>JSON.stringify\<close> texts, the time of the request and an id no row had, and
  answers \<^verbatim>\<open>{success: true, orderId}\<close> with that id. The rows that were there, and
  every other table, are as they were.
\<close>

theorem post_orders_inserts:
  assumes ok: "store_error w = None"
  shows "\<exists>i. post_orders rt w (Some items) (Some details) s =
               (res_json (OrderCreated i),
                s\<lparr>orders :=
                    orders s @
                      [\<lparr>ord_id = i, ord_items = Some (JSON_stringify rt items),
                        ord_details = Some (JSON_stringify rt details),
                        ord_created_at = CURRENT_TIMESTAMP w\<rparr>],
                  orders_seq := i\<rparr>) \<and>
             i \<notin> set (map ord_id (orders s))"
proof -
  let ?i = "next_rowid (orders_seq s) (map ord_id (orders s))"
  have "?i \<notin> set (map ord_id (orders s))"
    using next_rowid_fresh [of ?i "map ord_id (orders s)" "orders_seq s"] by auto
  with ok show ?thesis
    by (intro exI [of _ ?i]) (simp add: post_orders_def insert_order_def stringify_def Let_def)
qed

theorem post_orders_inserts_witness:
  "\<exists>i. post_orders example_runtime (at 10) (Some (JArray [])) (Some (JObject [])) example_shop =
         (res_json (OrderCreated i),
          example_shop\<lparr>orders :=
              orders example_shop @
                [\<lparr>ord_id = i, ord_items = Some ''[]'', ord_details = Some ''{}'',
                  ord_created_at = 10\<rparr>],
            orders_seq := i\<rparr>) \<and>
       i \<notin> set (map ord_id (orders example_shop))"
proof -
  have ok: "store_error (at 10) = None"
    by (simp add: at_def)
  from post_orders_inserts [OF ok, of example_runtime "JArray []" "JObject []" example_shop]
  show ?thesis
    by (simp add: at_def example_runtime_def)
qed

lemma app_orders:
  "orders (snd (app rt w req s)) =
     (case req of
        POST_orders items details \<Rightarrow>
          (case store_error w of
             None \<Rightarrow>
               orders s @
                 [\<lparr>ord_id = next_rowid (orders_seq s) (map ord_id (orders s)),
                   ord_items = stringify rt items, ord_details = stringify rt details,
                   ord_created_at = CURRENT_TIMESTAMP w\<rparr>]
           | Some m \<Rightarrow> orders s)
      | _ \<Rightarrow> orders s)"
  by (cases req)
     (auto simp: handler_defs statement_defs Let_def split: option.splits sum.splits list.splits)

lemma app_part_000_orders:
  "orders (snd (app_part_000 rt w req s)) = orders (snd (app rt w req s))"
  by (cases req)
     (auto simp: handler_defs statement_defs Let_def split: option.splits sum.splits list.splits
        prod.splits)

lemma prefix_app: "prefix (orders s) (orders (snd (app rt w req s)))"
  by (cases req) (simp_all add: app_orders split: option.splits del: app.simps)

lemma prefix_serve: "prefix (orders s) (orders (serve rt reqs s))"
proof (induction reqs arbitrary: s)
  case Nil
  show ?case by simp
next
  case (Cons x reqs)
  obtain w req where x: "x = (w, req)" by (cases x)
  have "prefix (orders s) (orders (snd (app rt w req s)))"
    by (rule prefix_app)
  also have "prefix \<dots> (orders (serve rt reqs (snd (app rt w req s))))"
    by (rule Cons.IH)
  finally show ?case by (simp add: x del: app.simps)
qed

lemma prefix_serve_part_000: "prefix (orders s) (orders (serve_part_000 rt reqs s))"
proof (induction reqs arbitrary: s)
  case Nil
  show ?case by simp
next
  case (Cons x reqs)
  obtain w req where x: "x = (w, req)" by (cases x)
  have "prefix (orders s) (orders (snd (app_part_000 rt w req s)))"
    by (simp add: app_part_000_orders prefix_app del: app.simps app_part_000.simps)
  also have "prefix \<dots> (orders (serve_part_000 rt reqs (snd (app_part_000 rt w req s))))"
    by (rule Cons.IH)
  finally show ?case by (simp add: x del: app.simps app_part_000.simps)
qed

text \<open>
  C9. Whatever the store, the request and the moment, the order rows before a request
  are the first rows of the orders table after it, unchanged and in their order, in both
  copies of the application, and so they are after any sequence of requests. A request
  other than \<^verbatim>\<open>POST /orders\<close> leaves the table as it was.
\<close>

theorem orders_never_change:
  "prefix (orders s) (orders (snd (app rt w req s))) \<and>
   prefix (orders s) (orders (snd (app_part_000 rt w req s))) \<and>
   prefix (orders s) (orders (serve rt reqs s)) \<and>
   prefix (orders s) (orders (serve_part_000 rt reqs s)) \<and>
   ((\<forall>items details. req \<noteq> POST_orders items details) \<longrightarrow>
      orders (snd (app rt w req s)) = orders s \<and>
      orders (snd (app_part_000 rt w req s)) = orders s)"
proof -
  have "orders (snd (app rt w req s)) = orders s"
    if "\<forall>items details. req \<noteq> POST_orders items details"
    using that by (cases req) (simp_all add: app_orders del: app.simps)
  then show ?thesis
    by (simp add: prefix_app prefix_serve prefix_serve_part_000 app_part_000_orders
        del: app.simps app_part_000.simps)
qed

theorem orders_never_change_witness:
  "prefix (orders example_shop)
     (orders (snd (app example_runtime (at 3) (DELETE_products_id ''1'') example_shop))) \<and>
   prefix (orders example_shop)
     (orders (snd (app_part_000 example_runtime (at 3) (DELETE_products_id ''1'') example_shop))) \<and>
   prefix (orders example_shop)
     (orders (serve example_runtime
        (example_orders @ [(at 13, DELETE_categories_by_name ''Dairy''), (at 14, GET_orders)])
        example_shop)) \<and>
   prefix (orders example_shop)
     (orders (serve_part_000 example_runtime
        (example_orders @ [(at 13, DELETE_categories_by_name ''Dairy''), (at 14, GET_orders)])
        example_shop)) \<and>
   orders (snd (app example_runtime (at 3) (DELETE_products_id ''1'') example_shop)) =
     orders example_shop \<and>
   orders (snd (app_part_000 example_runtime (at 3) (DELETE_products_id ''1'') example_shop)) =
     orders example_shop"
  using orders_never_change [of example_shop example_runtime "at 3" "DELETE_products_id ''1''"
      "example_orders @ [(at 13, DELETE_categories_by_name ''Dairy''), (at 14, GET_orders)]"]
  by simp

subsection \<open>The leave status\<close>

text \<open>
  C3, amended. On a store whose status table respects its primary key, a
  \<^verbatim>\<open>POST /status/leave\<close> that the engine does not fail is one upsert: without a row
  of key \<^verbatim>\<open>leave\<close> it adds one that holds the bound value, and otherwise it overwrites
  the value of that row and changes nothing else. After any sequence of requests the
  table has at most one row of key \<^verbatim>\<open>leave\<close>. A \<^verbatim>\<open>GET /status/leave\<close> after a
  sequence of requests whose last one posted \<open>u\<close> answers with the value the column
  holds for \<open>u\<close>: \<^verbatim>\<open>{status: t}\<close> when the string \<open>t\<close> was posted,
  \<^verbatim>\<open>{status: null}\<close> when \<^verbatim>\<open>null\<close> was, and for a number, boolean, array or object
  the text it was stored as.
\<close>

theorem post_status_leave_upsert:
  assumes pk: "primary_key_ok s" and ok: "store_error w = None"
  shows "post_status_leave rt w v s =
           (res_json SuccessTrue,
            s\<lparr>status_rows :=
                 (if ''leave'' \<in> set (map st_key (status_rows s))
                  then map (\<lambda>r. if st_key r = ''leave'' then r\<lparr>st_text := bind_text rt v\<rparr> else r)
                         (status_rows s)
                  else status_rows s @ [\<lparr>st_key = ''leave'', st_text = bind_text rt v\<rparr>])\<rparr>) \<and>
         length (filter (\<lambda>r. st_key r = ''leave'') (status_rows (serve rt reqs s))) \<le> 1 \<and>
         (store_error w' = None \<longrightarrow>
            fst (get_status_leave w' (serve rt (reqs @ [(w, POST_status_leave u)]) s)) =
              res_json (StatusIs (case bind_text rt u of None \<Rightarrow> JNull | Some x \<Rightarrow> JString x)) \<and>
            fst (get_status_leave w'
                  (serve rt (reqs @ [(w, POST_status_leave (Some (JString t)))]) s)) =
              res_json (StatusIs (JString t)) \<and>
            fst (get_status_leave w'
                  (serve rt (reqs @ [(w, POST_status_leave (Some JNull))]) s)) =
              res_json (StatusIs JNull))"
proof (intro conjI impI)
  from pk have d: "distinct (map st_key (status_rows s))"
    by (simp add: primary_key_ok_def)
  show "post_status_leave rt w v s =
           (res_json SuccessTrue,
            s\<lparr>status_rows :=
                 (if ''leave'' \<in> set (map st_key (status_rows s))
                  then map (\<lambda>r. if st_key r = ''leave'' then r\<lparr>st_text := bind_text rt v\<rparr> else r)
                         (status_rows s)
                  else status_rows s @ [\<lparr>st_key = ''leave'', st_text = bind_text rt v\<rparr>])\<rparr>)"
  proof (cases "''leave'' \<in> set (map st_key (status_rows s))")
    case True
    from upsert_present [OF True d] ok True show ?thesis
      by (simp add: post_status_leave_def upsert_status_def)
  next
    case False
    from upsert_absent [OF False] ok False show ?thesis
      by (simp add: post_status_leave_def upsert_status_def)
  qed
next
  from primary_key_serve [OF pk, of rt reqs]
  have "distinct (map st_key (status_rows (serve rt reqs s)))"
    by (simp add: primary_key_ok_def)
  then show "length (filter (\<lambda>r. st_key r = ''leave'') (status_rows (serve rt reqs s))) \<le> 1"
    by (rule distinct_count_le_1)
next
  assume ok': "store_error w' = None"
  from get_after_post [OF ok ok', of rt u "serve rt reqs s"]
  show "fst (get_status_leave w' (serve rt (reqs @ [(w, POST_status_leave u)]) s)) =
          res_json (StatusIs (case bind_text rt u of None \<Rightarrow> JNull | Some x \<Rightarrow> JString x))"
    by (simp add: serve_snoc)
next
  assume ok': "store_error w' = None"
  from get_after_post [OF ok ok', of rt "Some (JString t)" "serve rt reqs s"]
  show "fst (get_status_leave w'
              (serve rt (reqs @ [(w, POST_status_leave (Some (JString t)))]) s)) =
          res_json (StatusIs (JString t))"
    by (simp add: serve_snoc)
next
  assume ok': "store_error w' = None"
  from get_after_post [OF ok ok', of rt "Some JNull" "serve rt reqs s"]
  show "fst (get_status_leave w'
              (serve rt (reqs @ [(w, POST_status_leave (Some JNull))]) s)) =
          res_json (StatusIs JNull)"
    by (simp add: serve_snoc)
qed

theorem post_status_leave_upsert_witness:
  "post_status_leave example_runtime (at 1) (Some (JString ''open'')) example_leave =
     (res_json SuccessTrue,
      example_leave\<lparr>status_rows := [\<lparr>st_key = ''leave'', st_text = Some ''open''\<rparr>]\<rparr>) \<and>
   length (filter (\<lambda>r. st_key r = ''leave'')
     (status_rows (serve example_runtime
        [(at 0, POST_status_leave (Some (JString ''closed''))), (at 0, POST_status_leave None)]
        example_leave))) \<le> 1 \<and>
   fst (get_status_leave (at 2)
         (serve example_runtime
            ([(at 0, POST_status_leave (Some (JString ''closed''))), (at 0, POST_status_leave None)] @
             [(at 1, POST_status_leave (Some (JBool True)))])
            example_leave)) =
     res_json (StatusIs (JString ''1'')) \<and>
   fst (get_status_leave (at 2)
         (serve example_runtime
            ([(at 0, POST_status_leave (Some (JString ''closed''))), (at 0, POST_status_leave None)] @
             [(at 1, POST_status_leave (Some (JString ''back at 5'')))])
            example_leave)) =
     res_json (StatusIs (JString ''back at 5'')) \<and>
   fst (get_status_leave (at 2)
         (serve example_runtime
            ([(at 0, POST_status_leave (Some (JString ''closed''))), (at 0, POST_status_leave None)] @
             [(at 1, POST_status_leave (Some JNull))])
            example_leave)) =
     res_json (StatusIs JNull)"
proof -
  have pk: "primary_key_ok example_leave"
    by (simp add: primary_key_ok_def example_leave_def)
  have ok: "store_error (at 1) = None" "store_error (at 2) = None"
    by (simp_all add: at_def)
  from post_status_leave_upsert [OF pk ok(1), of example_runtime "Some (JString ''open'')"
      "[(at 0, POST_status_leave (Some (JString ''closed''))), (at 0, POST_status_leave None)]"
      "at 2" "Some (JBool True)" "''back at 5''"] ok(2)
  show ?thesis
    by (simp add: example_leave_def example_runtime_def)
qed

text \<open>
  The claim as it is written, for every body value, fails: the column is declared
  \<^verbatim>\<open>value TEXT\<close>, so the number 5 is stored as a text, and the \<^verbatim>\<open>GET\<close> after
  \<^verbatim>\<open>POST /status/leave {"status": 5}\<close> answers the string, not the number.
\<close>

theorem status_number_counterexample:
  "fst (get_status_leave (at 2)
         (snd (post_status_leave example_runtime (at 1) (Some (JNumber 5)) new_db))) =
     res_json (StatusIs (JString ''5'')) \<and>
   res_json (StatusIs (JString ''5'')) \<noteq> res_json (StatusIs (JNumber 5))"
  by (simp add: get_status_leave_def post_status_leave_def upsert_status_def select_status_def
      row_text_def at_def new_db_def example_runtime_def res_json_def decimal.simps digit_def)

text \<open>
  C4. When the engine does not fail, \<^verbatim>\<open>GET /status/leave\<close> answers
  \<^verbatim>\<open>{status: 'none'}\<close> on every store whose status table has no row of key \<^verbatim>\<open>leave\<close>
  (the text is the handler's, no row holds it), and the value that the row of key
  \<^verbatim>\<open>leave\<close> holds when there is one (\<^verbatim>\<open>null\<close> for a \<^verbatim>\<open>NULL\<close>). The store is not
  changed.
\<close>

theorem get_status_leave_sentinel:
  assumes "store_error w = None"
  shows "(''leave'' \<notin> set (map st_key (status_rows s)) \<longrightarrow>
            get_status_leave w s = (res_json (StatusIs (JString ''none'')), s)) \<and>
         (primary_key_ok s \<and> r \<in> set (status_rows s) \<and> st_key r = ''leave'' \<longrightarrow>
            get_status_leave w s =
              (res_json (StatusIs (case st_text r of None \<Rightarrow> JNull | Some t \<Rightarrow> JString t)), s))"
proof (intro conjI impI)
  assume "''leave'' \<notin> set (map st_key (status_rows s))"
  from find_key_absent [OF this] assms
  show "get_status_leave w s = (res_json (StatusIs (JString ''none'')), s)"
    by (simp add: get_status_leave_def select_status_def)
next
  assume "primary_key_ok s \<and> r \<in> set (status_rows s) \<and> st_key r = ''leave''"
  then have "find (\<lambda>x. st_key x = ''leave'') (status_rows s) = Some r"
    using find_key_present [of "status_rows s" r] by (simp add: primary_key_ok_def)
  with assms
  show "get_status_leave w s =
          (res_json (StatusIs (case st_text r of None \<Rightarrow> JNull | Some t \<Rightarrow> JString t)), s)"
    by (simp add: get_status_leave_def select_status_def row_text_def)
qed

theorem get_status_leave_sentinel_witness:
  "get_status_leave (at 3) new_db = (res_json (StatusIs (JString ''none'')), new_db) \<and>
   get_status_leave (at 3) example_leave =
     (res_json (StatusIs (JString ''on leave'')), example_leave)"
proof -
  have ok: "store_error (at 3) = None"
    by (simp add: at_def)
  from get_status_leave_sentinel [OF ok, of new_db]
    get_status_leave_sentinel [OF ok, of example_leave
      "\<lparr>st_key = ''leave'', st_text = Some ''on leave''\<rparr>"]
  show ?thesis
    by (simp add: new_db_def example_leave_def primary_key_ok_def)
qed

subsection \<open>Deletes\<close>

text \<open>
  C5. When the engine does not fail, each of \<^verbatim>\<open>DELETE /categories/:id\<close>,
  \<^verbatim>\<open>DELETE /categories/by-name/:name\<close>, \<^verbatim>\<open>DELETE /products/:id\<close> and
  \<^verbatim>\<open>DELETE /products/by-name/:name\<close> answers \<^verbatim>\<open>{success: true}\<close> with status 200 and
  leaves in its table the rows that do not match its parameter, in their order, and
  every other table as it was. When no row matches, the answer is the same and the store
  is the store before the request.
\<close>

theorem delete_always_success:
  assumes ok: "store_error w = None"
  shows "delete_categories_id rt w p s =
           (res_json SuccessTrue,
            s\<lparr>categories := filter (\<lambda>r. rowid_of rt p \<noteq> Some (cat_id r)) (categories s)\<rparr>) \<and>
         delete_categories_by_name w p s =
           (res_json SuccessTrue,
            s\<lparr>categories := filter (\<lambda>r. cat_name r \<noteq> Some p) (categories s)\<rparr>) \<and>
         delete_products_id rt w p s =
           (res_json SuccessTrue,
            s\<lparr>products := filter (\<lambda>r. rowid_of rt p \<noteq> Some (prod_id r)) (products s)\<rparr>) \<and>
         delete_products_by_name w p s =
           (res_json SuccessTrue,
            s\<lparr>products := filter (\<lambda>r. prod_name r \<noteq> Some p) (products s)\<rparr>) \<and>
         ((\<forall>r \<in> set (categories s). rowid_of rt p \<noteq> Some (cat_id r)) \<longrightarrow>
            delete_categories_id rt w p s = (res_json SuccessTrue, s)) \<and>
         ((\<forall>r \<in> set (categories s). cat_name r \<noteq> Some p) \<longrightarrow>
            delete_categories_by_name w p s = (res_json SuccessTrue, s)) \<and>
         ((\<forall>r \<in> set (products s). rowid_of rt p \<noteq> Some (prod_id r)) \<longrightarrow>
            delete_products_id rt w p s = (res_json SuccessTrue, s)) \<and>
         ((\<forall>r \<in> set (products s). prod_name r \<noteq> Some p) \<longrightarrow>
            delete_products_by_name w p s = (res_json SuccessTrue, s))"
proof -
  have same: "filter P xs = xs" if "\<forall>x \<in> set xs. P x" for P and xs :: "'a list"
    using that by (simp add: filter_id_conv)
  have 1: "delete_categories_id rt w p s =
           (res_json SuccessTrue,
            s\<lparr>categories := filter (\<lambda>r. rowid_of rt p \<noteq> Some (cat_id r)) (categories s)\<rparr>)"
    using ok by (simp add: delete_categories_id_def delete_category_id_def)
  have 2: "delete_categories_by_name w p s =
           (res_json SuccessTrue,
            s\<lparr>categories := filter (\<lambda>r. cat_name r \<noteq> Some p) (categories s)\<rparr>)"
    using ok by (simp add: delete_categories_by_name_def delete_category_name_def)
  have 3: "delete_products_id rt w p s =
           (res_json SuccessTrue,
            s\<lparr>products := filter (\<lambda>r. rowid_of rt p \<noteq> Some (prod_id r)) (products s)\<rparr>)"
    using ok by (simp add: delete_products_id_def delete_product_id_def)
  have 4: "delete_products_by_name w p s =
           (res_json SuccessTrue,
            s\<lparr>products := filter (\<lambda>r. prod_name r \<noteq> Some p) (products s)\<rparr>)"
    using ok by (simp add: delete_products_by_name_def delete_product_name_def)
  show ?thesis
    unfolding 1 2 3 4 by (auto simp: same)
qed

theorem delete_always_success_witness:
  "delete_categories_id example_runtime (at 5) ''1'' example_shop =
     (res_json SuccessTrue, example_shop\<lparr>categories := []\<rparr>) \<and>
   delete_categories_by_name (at 5) ''Dairy'' example_shop =
     (res_json SuccessTrue, example_shop\<lparr>categories := []\<rparr>) \<and>
   delete_products_id example_runtime (at 5) ''2'' example_shop =
     (res_json SuccessTrue,
      example_shop\<lparr>products :=
        [\<lparr>prod_id = 1, prod_name = Some ''Milk'', prod_description = None,
          prod_price = Some ''30'', prod_image = None, prod_category = Some ''Dairy''\<rparr>]\<rparr>) \<and>
   delete_products_by_name (at 5) ''Milk'' example_shop =
     (res_json SuccessTrue,
      example_shop\<lparr>products :=
        [\<lparr>prod_id = 2, prod_name = Some ''Soap'', prod_description = None,
          prod_price = Some ''25'', prod_image = None, prod_category = Some ''dairy''\<rparr>]\<rparr>) \<and>
   delete_categories_id example_runtime (at 5) ''77'' example_shop = (res_json SuccessTrue, example_shop) \<and>
   delete_categories_by_name (at 5) ''Bakery'' example_shop = (res_json SuccessTrue, example_shop) \<and>
   delete_products_id example_runtime (at 5) ''abc'' example_shop = (res_json SuccessTrue, example_shop) \<and>
   delete_products_by_name (at 5) ''milk'' example_shop = (res_json SuccessTrue, example_shop)"
proof -
  have ok: "store_error (at 5) = None"
    by (simp add: at_def)
  note ex = example_shop_def example_runtime_def
  from delete_always_success [OF ok, of example_runtime "''1''" example_shop]
  have a: "delete_categories_id example_runtime (at 5) ''1'' example_shop =
     (res_json SuccessTrue, example_shop\<lparr>categories := []\<rparr>)"
    by (simp add: ex)
  from delete_always_success [OF ok, of example_runtime "''Dairy''" example_shop]
  have b: "delete_categories_by_name (at 5) ''Dairy'' example_shop =
     (res_json SuccessTrue, example_shop\<lparr>categories := []\<rparr>)"
    by (simp add: ex)
  from delete_always_success [OF ok, of example_runtime "''2''" example_shop]
  have c: "delete_products_id example_runtime (at 5) ''2'' example_shop =
     (res_json SuccessTrue,
      example_shop\<lparr>products :=
        [\<lparr>prod_id = 1, prod_name = Some ''Milk'', prod_description = None,
          prod_price = Some ''30'', prod_image = None, prod_category = Some ''Dairy''\<rparr>]\<rparr>)"
    by (simp add: ex)
  from delete_always_success [OF ok, of example_runtime "''Milk''" example_shop]
  have d: "delete_products_by_name (at 5) ''Milk'' example_shop =
     (res_json SuccessTrue,
      example_shop\<lparr>products :=
        [\<lparr>prod_id = 2, prod_name = Some ''Soap'', prod_description = None,
          prod_price = Some ''25'', prod_image = None, prod_category = Some ''dairy''\<rparr>]\<rparr>)"
    by (simp add: ex)
  from delete_always_success [OF ok, of example_runtime "''77''" example_shop]
  have e: "delete_categories_id example_runtime (at 5) ''77'' example_shop =
     (res_json SuccessTrue, example_shop)"
    by (simp add: ex)
  from delete_always_success [OF ok, of example_runtime "''Bakery''" example_shop]
  have f: "delete_categories_by_name (at 5) ''Bakery'' example_shop =
     (res_json SuccessTrue, example_shop)"
    by (simp add: ex)
  from delete_always_success [OF ok, of example_runtime "''abc''" example_shop]
  have g: "delete_products_id example_runtime (at 5) ''abc'' example_shop =
     (res_json SuccessTrue, example_shop)"
    by (simp add: ex)
  from delete_always_success [OF ok, of example_runtime "''milk''" example_shop]
  have h: "delete_products_by_name (at 5) ''milk'' example_shop =
     (res_json SuccessTrue, example_shop)"
    by (simp add: ex)
  from a b c d e f g h show ?thesis
    by blast
qed

subsection \<open>Products\<close>

text \<open>
  C6, amended. When the engine does not fail, \<^verbatim>\<open>GET /products?category=c\<close> with a
  text \<open>c\<close> that is not empty answers with the product rows whose category is the
  text \<open>c\<close>, character for character, and \<^verbatim>\<open>GET /products\<close> without the parameter
  answers with all product rows.
\<close>

theorem get_products_filter:
  assumes ok: "store_error w = None"
  shows "(c \<noteq> [] \<longrightarrow>
            get_products w (Some c) s =
              (res_json (ProductRows (filter (\<lambda>r. prod_category r = Some c) (products s))), s)) \<and>
         get_products w None s = (res_json (ProductRows (products s)), s)"
  using ok by (simp add: get_products_def)

theorem get_products_filter_witness:
  "get_products (at 6) (Some ''Dairy'') example_shop =
     (res_json (ProductRows
        [\<lparr>prod_id = 1, prod_name = Some ''Milk'', prod_description = None,
          prod_price = Some ''30'', prod_image = None, prod_category = Some ''Dairy''\<rparr>]),
      example_shop) \<and>
   get_products (at 6) None example_shop =
     (res_json (ProductRows (products example_shop)), example_shop)"
proof -
  have ok: "store_error (at 6) = None"
    by (simp add: at_def)
  from get_products_filter [OF ok, of "''Dairy''" example_shop]
  show ?thesis
    by (simp add: example_shop_def)
qed

text \<open>
  The claim as it is written, for every parameter that is present, fails at the empty
  text: \<^verbatim>\<open>GET /products?category=\<close> answers with both products of the example shop,
  and neither has the empty category.
\<close>

theorem get_products_empty_category_counterexample:
  "get_products (at 6) (Some []) example_shop =
     (res_json (ProductRows (products example_shop)), example_shop) \<and>
   products example_shop \<noteq> filter (\<lambda>r. prod_category r = Some []) (products example_shop)"
  by (simp add: get_products_def at_def example_shop_def)

text \<open>
  C10. A \<^verbatim>\<open>category\<close> parameter that is the empty text is falsy: the handler adds
  no \<^verbatim>\<open>WHERE\<close>, and the request is answered as the request without the parameter
  is, with all product rows when the engine does not fail.
\<close>

theorem get_products_empty_category:
  "get_products w (Some []) s = get_products w None s \<and>
   (store_error w = None \<longrightarrow>
      get_products w (Some []) s = (res_json (ProductRows (products s)), s))"
proof -
  have falsy: "\<not> truthy (Some [])" "\<not> truthy None"
    by simp_all
  have same: "get_products w (Some []) s = get_products w None s"
    unfolding get_products_def using falsy by simp
  have "get_products w None s = (res_json (ProductRows (products s)), s)"
    if "store_error w = None"
    using that by (simp add: get_products_def)
  with same show ?thesis
    by simp
qed

theorem get_products_empty_category_witness:
  "get_products (at 6) (Some []) example_shop = get_products (at 6) None example_shop \<and>
   get_products (at 6) (Some []) example_shop =
     (res_json (ProductRows
        [\<lparr>prod_id = 1, prod_name = Some ''Milk'', prod_description = None,
          prod_price = Some ''30'', prod_image = None, prod_category = Some ''Dairy''\<rparr>,
         \<lparr>prod_id = 2, prod_name = Some ''Soap'', prod_description = None,
          prod_price = Some ''25'', prod_image = None, prod_category = Some ''dairy''\<rparr>]),
      example_shop)"
  using get_products_empty_category [of "at 6" example_shop]
  by (simp add: at_def example_shop_def get_products_def)

text \<open>
  C8, amended. When the engine does not fail, \<^verbatim>\<open>POST /products\<close> of
  \<^verbatim>\<open>server.js\<close> with a file under \<^verbatim>\<open>image\<close> inserts one row whose image is the
  base URL, \<^verbatim>\<open>/uploads/\<close> and the stored file name, which is the digits of
  \<^verbatim>\<open>Date.now()\<close> followed by the extension of the original name, and its answer
  carries the same image; without a file the row's image is \<^verbatim>\<open>NULL\<close> and the
  answer's is \<^verbatim>\<open>null\<close>. The handler of \<^verbatim>\<open>src/unnamed/part_000\<close> stores
  \<^verbatim>\<open>/uploads/\<close> and the file name with no base URL before it, and its answer has no
  image.
\<close>

theorem post_products_image:
  assumes ok: "store_error w = None"
  shows "(\<exists>i. post_products rt w form (Some file) s =
              (res_json (ProductCreated i
                 (Some (BACKEND_URL rt @ ''/uploads/'' @
                        decimal (Date_now w) @ extname rt (originalname file)))),
               s\<lparr>products :=
                   products s @
                     [\<lparr>prod_id = i, prod_name = form_name form,
                       prod_description = form_description form, prod_price = form_price form,
                       prod_image =
                         Some (BACKEND_URL rt @ ''/uploads/'' @
                               decimal (Date_now w) @ extname rt (originalname file)),
                       prod_category = form_category form\<rparr>],
                 products_seq := i\<rparr>)) \<and>
         (\<exists>i. post_products rt w form None s =
              (res_json (ProductCreated i None),
               s\<lparr>products :=
                   products s @
                     [\<lparr>prod_id = i, prod_name = form_name form,
                       prod_description = form_description form, prod_price = form_price form,
                       prod_image = None, prod_category = form_category form\<rparr>],
                 products_seq := i\<rparr>)) \<and>
         (\<exists>i. post_products_part_000 rt w form (Some file) s =
              (res_json (ProductCreatedId i),
               s\<lparr>products :=
                   products s @
                     [\<lparr>prod_id = i, prod_name = form_name form,
                       prod_description = form_description form, prod_price = form_price form,
                       prod_image =
                         Some (''/uploads/'' @
                               decimal (Date_now w) @ extname rt (originalname file)),
                       prod_category = form_category form\<rparr>],
                 products_seq := i\<rparr>)) \<and>
         (\<exists>i. post_products_part_000 rt w form None s =
              (res_json (ProductCreatedId i),
               s\<lparr>products :=
                   products s @
                     [\<lparr>prod_id = i, prod_name = form_name form,
                       prod_description = form_description form, prod_price = form_price form,
                       prod_image = None, prod_category = form_category form\<rparr>],
                 products_seq := i\<rparr>))"
proof -
  let ?i = "next_rowid (products_seq s) (map prod_id (products s))"
  note defs = post_products_def post_products_part_000_def insert_product_def image_url_def
    image_path_part_000_def upload_single_def storage_filename_def Let_def
  show ?thesis
  proof (intro conjI)
    show "\<exists>i. post_products rt w form (Some file) s =
              (res_json (ProductCreated i
                 (Some (BACKEND_URL rt @ ''/uploads/'' @
                        decimal (Date_now w) @ extname rt (originalname file)))),
               s\<lparr>products :=
                   products s @
                     [\<lparr>prod_id = i, prod_name = form_name form,
                       prod_description = form_description form, prod_price = form_price form,
                       prod_image =
                         Some (BACKEND_URL rt @ ''/uploads/'' @
                               decimal (Date_now w) @ extname rt (originalname file)),
                       prod_category = form_category form\<rparr>],
                 products_seq := i\<rparr>)"
      using ok by (intro exI [of _ ?i]) (simp add: defs)
    show "\<exists>i. post_products rt w form None s =
              (res_json (ProductCreated i None),
               s\<lparr>products :=
                   products s @
                     [\<lparr>prod_id = i, prod_name = form_name form,
                       prod_description = form_description form, prod_price = form_price form,
                       prod_image = None, prod_category = form_category form\<rparr>],
                 products_seq := i\<rparr>)"
      using ok by (intro exI [of _ ?i]) (simp add: defs)
    show "\<exists>i. post_products_part_000 rt w form (Some file) s =
              (res_json (ProductCreatedId i),
               s\<lparr>products :=
                   products s @
                     [\<lparr>prod_id = i, prod_name = form_name form,
                       prod_description = form_description form, prod_price = form_price form,
                       prod_image =
                         Some (''/uploads/'' @
                               decimal (Date_now w) @ extname rt (originalname file)),
                       prod_category = form_category form\<rparr>],
                 products_seq := i\<rparr>)"
      using ok by (intro exI [of _ ?i]) (simp add: defs)
    show "\<exists>i. post_products_part_000 rt w form None s =
              (res_json (ProductCreatedId i),
               s\<lparr>products :=
                   products s @
                     [\<lparr>prod_id = i, prod_name = form_name form,
                       prod_description = form_description form, prod_price = form_price form,
                       prod_image = None, prod_category = form_category form\<rparr>],
                 products_seq := i\<rparr>)"
      using ok by (intro exI [of _ ?i]) (simp add: defs)
  qed
qed

theorem post_products_image_witness:
  "(\<exists>i. post_products example_runtime (at 1700000000) example_form (Some example_file) example_shop =
        (res_json (ProductCreated i
           (Some ''https://velan-grocery-shop-backend.onrender.com/uploads/1700000000000.png'')),
         example_shop\<lparr>products :=
             products example_shop @
               [\<lparr>prod_id = i, prod_name = Some ''Curd'', prod_description = Some ''Fresh curd'',
                 prod_price = Some ''40'',
                 prod_image =
                   Some ''https://velan-grocery-shop-backend.onrender.com/uploads/1700000000000.png'',
                 prod_category = Some ''Dairy''\<rparr>],
           products_seq := i\<rparr>)) \<and>
   (\<exists>i. post_products example_runtime (at 1700000000) example_form None example_shop =
        (res_json (ProductCreated i None),
         example_shop\<lparr>products :=
             products example_shop @
               [\<lparr>prod_id = i, prod_name = Some ''Curd'', prod_description = Some ''Fresh curd'',
                 prod_price = Some ''40'', prod_image = None, prod_category = Some ''Dairy''\<rparr>],
           products_seq := i\<rparr>))"
proof -
  have ok: "store_error (at 1700000000) = None"
    by (simp add: at_def)
  have name: "BACKEND_URL example_runtime @ ''/uploads/'' @
      decimal (Date_now (at 1700000000)) @ extname example_runtime (originalname example_file) =
      ''https://velan-grocery-shop-backend.onrender.com/uploads/1700000000000.png''"
    by (simp add: BACKEND_URL_def example_runtime_def at_def example_file_def decimal.simps
        digit_def)
  from post_products_image [OF ok, of example_runtime example_form example_file example_shop]
  show ?thesis
    unfolding name by (simp add: example_form_def)
qed

text \<open>
  The claim as it is written, for every \<^verbatim>\<open>POST /products\<close> handler of the
  repository, fails on the older copy: the image it stores does not start with the base
  URL, and its answer is \<^verbatim>\<open>{success: true, productId}\<close>.
\<close>

theorem post_products_part_000_counterexample:
  "post_products_part_000 example_runtime (at 1700000000) example_form (Some example_file)
     example_shop =
     (res_json (ProductCreatedId 3),
      example_shop\<lparr>products :=
          products example_shop @
            [\<lparr>prod_id = 3, prod_name = Some ''Curd'', prod_description = Some ''Fresh curd'',
              prod_price = Some ''40'', prod_image = Some ''/uploads/1700000000000.png'',
              prod_category = Some ''Dairy''\<rparr>],
        products_seq := 3\<rparr>) \<and>
   ''/uploads/1700000000000.png'' \<noteq> BACKEND_URL example_runtime @ ''/uploads/1700000000000.png''"
proof -
  have ok: "store_error (at 1700000000) = None"
    by (simp add: at_def)
  have name: "decimal (Date_now (at 1700000000)) = ''1700000000000''"
    by (simp add: at_def decimal.simps digit_def)
  have i: "next_rowid (products_seq example_shop) (map prod_id (products example_shop)) = 3"
    by (simp add: next_rowid_def example_shop_def)
  have "post_products_part_000 example_runtime (at 1700000000) example_form (Some example_file)
     example_shop =
     (res_json (ProductCreatedId 3),
      example_shop\<lparr>products :=
          products example_shop @
            [\<lparr>prod_id = 3, prod_name = Some ''Curd'', prod_description = Some ''Fresh curd'',
              prod_price = Some ''40'', prod_image = Some ''/uploads/1700000000000.png'',
              prod_category = Some ''Dairy''\<rparr>],
        products_seq := 3\<rparr>)"
    using ok
    by (simp add: post_products_part_000_def insert_product_def image_path_part_000_def
        upload_single_def storage_filename_def Let_def name i example_form_def example_file_def
        example_runtime_def)
  moreover have "''/uploads/1700000000000.png'' \<noteq>
      BACKEND_URL example_runtime @ ''/uploads/1700000000000.png''"
    by (simp add: BACKEND_URL_def example_runtime_def)
  ultimately show ?thesis
    by blast
qed


end
